theory Spec2Isabelle
  imports Main
begin

section \<open>The resilient LM Studio client (src/lm-studio-client.ts)\<close>

text \<open>
  The class \<^verbatim>\<open>LMStudioClient\<close> is embedded as a record of its private fields and one
  function per method. Every method takes the client state and returns the new one; a
  \<^verbatim>\<open>throw\<close> is the \<open>Inl\<close> branch of a sum. What the method reads from the outside
  world (the clock, the health probe, the chat-completion endpoint) is passed in as an
  environment, and what it does to the outside world is returned as a list of effects.
  JavaScript numbers that hold counters, configuration values and \<^verbatim>\<open>Date.now()\<close>
  readings are integers.
\<close>

subsection \<open>Errors and template literals\<close>

text \<open>
  An error object: the built-in class it is an instance of (\<^verbatim>\<open>TypeError\<close>, or
  \<^verbatim>\<open>Error\<close> with every other class derived from it), its \<^verbatim>\<open>name\<close> and its
  \<^verbatim>\<open>message\<close>. The retry package tests the class, line 183 tests the name.
\<close>

datatype error_class = Error_class | TypeError_class

datatype js_error = JsError (err_class: error_class) (err_name: string) (err_message: string)

definition new_Error :: "string \<Rightarrow> js_error" where
  "new_Error msg = JsError Error_class ''Error'' msg"

definition digit_char :: "nat \<Rightarrow> char" where
  "digit_char d = ''0123456789'' ! d"

function show_nat :: "nat \<Rightarrow> string" where
  "show_nat n = (if n < 10 then [digit_char n] else show_nat (n div 10) @ [digit_char (n mod 10)])"
  by pat_completeness auto
termination
  by (relation "measure id") auto

declare show_nat.simps [simp del]

text \<open>
  A number in a template literal is printed by \<^verbatim>\<open>Number::toString\<close>. For an integer
  it works on the decimal digits: up to 21 digits are printed as they are, a longer number
  in exponent notation, with the trailing zeros dropped from the mantissa. JavaScript takes
  the shortest digits that identify the double; they are the integer's own digits for
  every integer up to \<open>2 ^ 53\<close>, so the function is exact there (and for a power of ten
  beyond). Statements about a printed number take it in that range.
\<close>

definition Number_toString :: "int \<Rightarrow> string" where
  "Number_toString i =
     (let digits = show_nat (nat \<bar>i\<bar>);
          n = length digits;
          s = rev (dropWhile (\<lambda>c. c = CHR ''0'') (rev digits));
          body = (if n \<le> 21 then digits
                  else if length s = 1 then s @ ''e+'' @ show_nat (n - 1)
                  else hd s # CHR ''.'' # tl s @ ''e+'' @ show_nat (n - 1))
      in if i < 0 then CHR ''-'' # body else body)"

subsection \<open>Configuration (config.ts)\<close>

text \<open>
  The fields of \<^verbatim>\<open>config\<close> that the client reads. The schema declares every number
  \<^verbatim>\<open>z.number().int().positive()\<close>, and \<^verbatim>\<open>loadConfig\<close> throws on anything else;
  \<open>default_config\<close> holds the schema's defaults.
\<close>

record config =
  lmStudio_maxRetries :: nat
  lmStudio_retryDelay :: int
  lmStudio_timeout :: int
  rateLimit_enabled :: bool
  rateLimit_maxRequestsPerMinute :: int
  rateLimit_maxConcurrent :: int
  cache_enabled :: bool
  cache_ttl :: int

definition default_config :: config where
  "default_config =
     \<lparr> lmStudio_maxRetries = 3, lmStudio_retryDelay = 1000, lmStudio_timeout = 30000,
       rateLimit_enabled = True, rateLimit_maxRequestsPerMinute = 60,
       rateLimit_maxConcurrent = 10, cache_enabled = True, cache_ttl = 300 \<rparr>"

subsection \<open>The cache\<close>

text \<open>
  Modelled from the spec: \<^verbatim>\<open>NodeCache\<close> is the third-party package node-cache, whose
  source is not part of the repository. The spec (sections 3 and 4.1) gives its contract:
  an entry holds a value, the time it was stored and a time-to-live; lookup returns the
  value or absent, and an entry is unreachable once \<open>now - storedAt > ttl\<close>; store
  overwrites; flush drops every entry; a periodic sweep runs until the cache is closed.
  The time-to-live is configured in seconds, the clock counts milliseconds.
\<close>

record cache_entry =
  entry_value :: string
  storedAt :: int
  ttl :: int

record NodeCache =
  data :: "string \<rightharpoonup> cache_entry"
  stdTTL :: int
  checkTimer :: bool

definition new_NodeCache :: "int \<Rightarrow> NodeCache" where
  "new_NodeCache seconds = \<lparr> data = Map.empty, stdTTL = seconds, checkTimer = True \<rparr>"

definition NodeCache_get :: "NodeCache \<Rightarrow> int \<Rightarrow> string \<Rightarrow> string option" where
  "NodeCache_get c now key =
     (case data c key of
        None \<Rightarrow> None
      | Some e \<Rightarrow> if now - storedAt e > ttl e * 1000 then None else Some (entry_value e))"

definition NodeCache_set :: "NodeCache \<Rightarrow> int \<Rightarrow> string \<Rightarrow> string \<Rightarrow> NodeCache" where
  "NodeCache_set c now key val =
     c\<lparr> data := (data c)(key \<mapsto> \<lparr> entry_value = val, storedAt = now, ttl = stdTTL c \<rparr>) \<rparr>"

definition NodeCache_flushAll :: "NodeCache \<Rightarrow> NodeCache" where
  "NodeCache_flushAll c = c\<lparr> data := Map.empty \<rparr>"

definition NodeCache_close :: "NodeCache \<Rightarrow> NodeCache" where
  "NodeCache_close c = c\<lparr> checkTimer := False \<rparr>"

subsection \<open>The client state\<close>

text \<open>
  The private fields of \<^verbatim>\<open>LMStudioClient\<close>. The constructor's \<^verbatim>\<open>setInterval\<close> call
  leaves a timer in the event loop and keeps no handle to it; \<open>healthCheckLoop\<close> is
  that timer: true while the periodic probe is scheduled.
\<close>

record client =
  cache :: NodeCache
  isHealthy :: bool
  lastHealthCheck :: int
  activeRequests :: int
  totalRequests :: int
  totalErrors :: int
  requestTimestamps :: "int list"
  healthCheckLoop :: bool

definition new_LMStudioClient :: "config \<Rightarrow> client" where
  "new_LMStudioClient cfg =
     \<lparr> cache = new_NodeCache (cache_ttl cfg), isHealthy = False, lastHealthCheck = 0,
       activeRequests = 0, totalRequests = 0, totalErrors = 0, requestTimestamps = [],
       healthCheckLoop = True \<rparr>"

subsection \<open>The outside world\<close>

text \<open>
  A chat-completion request resolves with a payload, rejects with an error, or is still
  pending when the per-attempt deadline passes. A payload either conforms to
  \<^verbatim>\<open>LMStudioResponseSchema\<close>, and then only the message contents of its choices matter,
  or it does not, and the schema's \<^verbatim>\<open>parse\<close> throws.
\<close>

datatype completion = WellFormed "string list" | Malformed string

datatype remote_outcome = Resolves completion | Rejects js_error | Pending

text \<open>
  The environment of one call of \<^verbatim>\<open>complete\<close>: the clock readings at the places the
  method reads the clock, the outcome of the health probe should the call make one
  (\<open>Some t\<close>: \<^verbatim>\<open>models.list()\<close> resolved within five seconds and the clock read \<open>t\<close>
  at line 56; \<open>None\<close>: it rejected or timed out), and the outcome of the \<open>n\<close>-th
  chat-completion request. The prompt and the sampling options only travel to the
  endpoint, so they are part of what \<open>endpoint\<close> answers. \<open>isNetworkError\<close> is the
  test by which the installed retry package tells a network error from other errors; it
  is a table of messages that differs between the versions of the package, so it is a
  parameter here.
\<close>

record env =
  now_get :: int
  now_prune :: int
  now_push :: int
  now_health :: int
  probe :: "int option"
  endpoint :: "nat \<Rightarrow> remote_outcome"
  now_set :: int
  isNetworkError :: "js_error \<Rightarrow> bool"

datatype effect = HealthProbe | RemoteCall nat | Sleep int

record options =
  cacheKey :: "string option"

text \<open>JavaScript truthiness of an optional string: defined and not empty.\<close>

definition truthy :: "string option \<Rightarrow> bool" where
  "truthy s = (case s of None \<Rightarrow> False | Some x \<Rightarrow> x \<noteq> [])"

subsection \<open>checkHealth (lines 46-69)\<close>

definition checkHealth :: "int option \<Rightarrow> client \<Rightarrow> bool \<times> client" where
  "checkHealth p st =
     (case p of
        Some t \<Rightarrow> (True, st\<lparr> isHealthy := True, lastHealthCheck := t \<rparr>)
      | None \<Rightarrow> (False, st\<lparr> isHealthy := False \<rparr>))"

subsection \<open>enforceRateLimit (lines 71-89)\<close>

definition rate_limit_error :: js_error where
  "rate_limit_error = new_Error ''Rate limit exceeded. Please try again later.''"

definition concurrency_error :: js_error where
  "concurrency_error = new_Error ''Too many concurrent requests. Please try again later.''"

text \<open>
  \<open>t1\<close> is the clock reading of line 75 and \<open>t2\<close> that of line 88. The pruned
  timestamp list is assigned before either check, so it is kept when the method throws.
\<close>

definition enforceRateLimit :: "config \<Rightarrow> int \<Rightarrow> int \<Rightarrow> client \<Rightarrow> (js_error + unit) \<times> client" where
  "enforceRateLimit cfg t1 t2 st =
     (if \<not> rateLimit_enabled cfg then (Inr (), st)
      else
        let oneMinuteAgo = t1 - 60000;
            st1 = st\<lparr> requestTimestamps := filter (\<lambda>ts. ts > oneMinuteAgo) (requestTimestamps st) \<rparr>
        in if int (length (requestTimestamps st1)) \<ge> rateLimit_maxRequestsPerMinute cfg
           then (Inl rate_limit_error, st1)
           else if activeRequests st1 \<ge> rateLimit_maxConcurrent cfg
           then (Inl concurrency_error, st1)
           else (Inr (), st1\<lparr> requestTimestamps := requestTimestamps st1 @ [t2] \<rparr>))"

subsection \<open>The retrying executor (lines 127-155)\<close>

text \<open>
  Modelled from the spec: \<^verbatim>\<open>pTimeout\<close> is the third-party package p-timeout, whose
  source is not part of the repository. The spec (section 4.4): each attempt is bounded by
  the timeout, and an attempt that exceeds it is a timeout failure, distinct from an error
  the remote reports. A promise that settles in time is passed through; otherwise the
  rejection is an error named \<^verbatim>\<open>TimeoutError\<close>, the name line 183 tests for. The
  timeout is positive, as the schema of the configuration requires.
\<close>

definition pTimeout :: "int \<Rightarrow> remote_outcome \<Rightarrow> js_error + completion" where
  "pTimeout ms out =
     (case out of
        Resolves c \<Rightarrow> Inr c
      | Rejects e \<Rightarrow> Inl e
      | Pending \<Rightarrow>
          Inl (JsError Error_class ''TimeoutError''
                 (''Promise timed out after '' @ Number_toString ms @ '' milliseconds'')))"

text \<open>
  \<^verbatim>\<open>LMStudioResponseSchema.parse\<close> (validation.ts) returns the payload when it has the
  declared shape and throws the schema library's \<^verbatim>\<open>ZodError\<close> otherwise.
\<close>

definition LMStudioResponseSchema_parse :: "completion \<Rightarrow> js_error + string list" where
  "LMStudioResponseSchema_parse c =
     (case c of WellFormed choices \<Rightarrow> Inr choices | Malformed issues \<Rightarrow> Inl (JsError Error_class ''ZodError'' issues))"

text \<open>One invocation of the function handed to \<^verbatim>\<open>pRetry\<close> (lines 128-143).\<close>

definition attempt :: "config \<Rightarrow> remote_outcome \<Rightarrow> js_error + string list" where
  "attempt cfg out =
     (case pTimeout (lmStudio_timeout cfg) out of
        Inl e \<Rightarrow> Inl e
      | Inr completion \<Rightarrow> LMStudioResponseSchema_parse completion)"

text \<open>
  Modelled from the spec: \<^verbatim>\<open>pRetry\<close> is the third-party package p-retry (in the
  versions up to 6, whose \<^verbatim>\<open>onFailedAttempt\<close> receives the error object that lines
  148-151 read), built on the package retry; neither is part of the repository. The spec
  (section 4.4) gives the contract: the operation runs once and a failure is retried until
  \<open>retries\<close> further attempts are used up, with a delay before each retry and none
  before the first attempt. Where the spec says that every failure is retried and the last
  one handed on, the package the code runs does otherwise, and the definition follows the
  package:
  \<^item> a failure that is an instance of \<^verbatim>\<open>TypeError\<close> and not a network error ends the run
    at once and is handed on (\<open>stops_retry\<close>);
  \<^item> when the retries are used up, the error handed on is \<^verbatim>\<open>mainError()\<close> of the
    package retry: of the errors of all attempts, the one whose message occurred most
    often, and the latest one among equally frequent messages;
  \<^item> the delay before a retry is \<open>minTimeout\<close> times \<open>factor\<close> to the number of
    retries already made, capped at \<open>maxTimeout\<close>; the client sets \<open>retries\<close>,
    \<open>minTimeout\<close> and \<open>maxTimeout\<close> (lines 145-147) and leaves \<open>factor\<close> at the
    package's 2.
  The package also stops at its own \<^verbatim>\<open>AbortError\<close>, which nothing in the repository
  constructs, and it refuses \<open>minTimeout > maxTimeout\<close>, which a configuration accepted
  by the schema (positive numbers) never gives.
\<close>

record retry_options =
  retries :: nat
  factor :: int
  minTimeout :: int
  maxTimeout :: int

definition createTimeout :: "retry_options \<Rightarrow> nat \<Rightarrow> int" where
  "createTimeout ro k = min (max (minTimeout ro) 1 * factor ro ^ k) (maxTimeout ro)"

definition stops_retry :: "(js_error \<Rightarrow> bool) \<Rightarrow> js_error \<Rightarrow> bool" where
  "stops_retry isNet e = (err_class e = TypeError_class \<and> \<not> isNet e)"

fun mainError_loop :: "js_error list \<Rightarrow> (string \<Rightarrow> nat) \<Rightarrow> js_error option \<Rightarrow> nat \<Rightarrow> js_error option" where
  "mainError_loop [] counts mainError mainErrorCount = mainError"
| "mainError_loop (error # errors) counts mainError mainErrorCount =
     (let count = counts (err_message error) + 1;
          counts' = counts(err_message error := count)
      in if count \<ge> mainErrorCount
         then mainError_loop errors counts' (Some error) count
         else mainError_loop errors counts' mainError mainErrorCount)"

definition mainError :: "js_error list \<Rightarrow> js_error option" where
  "mainError errors = mainError_loop errors (\<lambda>message. 0) None 0"

text \<open>
  \<open>errors\<close> are the errors of the attempts made so far, \<open>n\<close> is the number of the
  attempt about to be made and \<open>left\<close> the number of retries not yet used. (The
  \<open>None\<close> branch is never taken: the list given to \<open>mainError\<close> holds \<open>e\<close>.)
\<close>

fun pRetry_from :: "(nat \<Rightarrow> js_error + 'a) \<Rightarrow> retry_options \<Rightarrow> (js_error \<Rightarrow> bool) \<Rightarrow> js_error list
    \<Rightarrow> nat \<Rightarrow> nat \<Rightarrow> (js_error + 'a) \<times> effect list" where
  "pRetry_from input ro isNet errors n 0 =
     (case input n of
        Inr val \<Rightarrow> (Inr val, [RemoteCall n])
      | Inl e \<Rightarrow>
          if stops_retry isNet e then (Inl e, [RemoteCall n])
          else (Inl (case mainError (errors @ [e]) of Some m \<Rightarrow> m | None \<Rightarrow> e), [RemoteCall n]))"
| "pRetry_from input ro isNet errors n (Suc left) =
     (case input n of
        Inr val \<Rightarrow> (Inr val, [RemoteCall n])
      | Inl e \<Rightarrow>
          if stops_retry isNet e then (Inl e, [RemoteCall n])
          else (case pRetry_from input ro isNet (errors @ [e]) (Suc n) left of
                  (r, effs) \<Rightarrow> (r, RemoteCall n # Sleep (createTimeout ro (n - 1)) # effs)))"

definition pRetry :: "(nat \<Rightarrow> js_error + 'a) \<Rightarrow> retry_options \<Rightarrow> (js_error \<Rightarrow> bool) \<Rightarrow> (js_error + 'a) \<times> effect list" where
  "pRetry input ro isNet = pRetry_from input ro isNet [] 1 (retries ro)"

definition retry_options_of :: "config \<Rightarrow> retry_options" where
  "retry_options_of cfg =
     \<lparr> retries = lmStudio_maxRetries cfg, factor = 2,
       minTimeout = lmStudio_retryDelay cfg, maxTimeout = lmStudio_retryDelay cfg * 3 \<rparr>"

definition retrying_executor :: "config \<Rightarrow> env \<Rightarrow> (js_error + string list) \<times> effect list" where
  "retrying_executor cfg ev =
     pRetry (\<lambda>n. attempt cfg (endpoint ev n)) (retry_options_of cfg) (isNetworkError ev)"

subsection \<open>complete (lines 91-191)\<close>

definition unavailable_error :: js_error where
  "unavailable_error = new_Error ''LM Studio is not responding. Please ensure it is running.''"

definition timeout_error :: "config \<Rightarrow> js_error" where
  "timeout_error cfg = new_Error (''Request timed out after '' @ Number_toString (lmStudio_timeout cfg) @ ''ms'')"

text \<open>
  Lines 101-103: the value the cache-hit branch returns, if the branch is taken. Both the
  key and the cached value are tested for truthiness.
\<close>

definition cache_lookup :: "config \<Rightarrow> env \<Rightarrow> options \<Rightarrow> client \<Rightarrow> string option" where
  "cache_lookup cfg ev opts st =
     (if cache_enabled cfg \<and> truthy (cacheKey opts)
      then (case NodeCache_get (cache st) (now_get ev) (the (cacheKey opts)) of
              None \<Rightarrow> None
            | Some cached \<Rightarrow> if cached \<noteq> [] then Some cached else None)
      else None)"

text \<open>Lines 157-172, the path after \<^verbatim>\<open>pRetry\<close> resolved, with the \<^verbatim>\<open>finally\<close> block.\<close>

definition complete_resolved :: "config \<Rightarrow> env \<Rightarrow> options \<Rightarrow> string list \<Rightarrow> client \<Rightarrow> (js_error + string) \<times> client" where
  "complete_resolved cfg ev opts response st =
     (let result = (case response of [] \<Rightarrow> [] | c # _ \<Rightarrow> c);
          st1 = (if cache_enabled cfg \<and> truthy (cacheKey opts)
                 then st\<lparr> cache := NodeCache_set (cache st) (now_set ev) (the (cacheKey opts)) result \<rparr>
                 else st)
      in (Inr result, st1\<lparr> activeRequests := activeRequests st1 - 1 \<rparr>))"

text \<open>Lines 173-187, the \<^verbatim>\<open>catch\<close> block, with the \<^verbatim>\<open>finally\<close> block.\<close>

definition complete_rejected :: "config \<Rightarrow> js_error \<Rightarrow> client \<Rightarrow> (js_error + string) \<times> client" where
  "complete_rejected cfg error st =
     (let st1 = st\<lparr> totalErrors := totalErrors st + 1 \<rparr>;
          thrown = (if err_name error = ''TimeoutError'' then timeout_error cfg else error)
      in (Inl thrown, st1\<lparr> activeRequests := activeRequests st1 - 1 \<rparr>))"

definition complete_settle :: "config \<Rightarrow> env \<Rightarrow> options \<Rightarrow> js_error + string list \<Rightarrow> client \<Rightarrow> (js_error + string) \<times> client" where
  "complete_settle cfg ev opts r st =
     (case r of
        Inr response \<Rightarrow> complete_resolved cfg ev opts response st
      | Inl error \<Rightarrow> complete_rejected cfg error st)"

text \<open>Lines 122-190: the call from the two increments on.\<close>

definition complete_dispatched :: "config \<Rightarrow> env \<Rightarrow> options \<Rightarrow> client \<Rightarrow> (js_error + string) \<times> client \<times> effect list" where
  "complete_dispatched cfg ev opts st =
     (let st1 = st\<lparr> activeRequests := activeRequests st + 1, totalRequests := totalRequests st + 1 \<rparr>
      in case retrying_executor cfg ev of
           (r, effs) \<Rightarrow>
             (case complete_settle cfg ev opts r st1 of (res, st2) \<Rightarrow> (res, st2, effs)))"

definition complete :: "config \<Rightarrow> env \<Rightarrow> options \<Rightarrow> client \<Rightarrow> (js_error + string) \<times> client \<times> effect list" where
  "complete cfg ev opts st =
     (case cache_lookup cfg ev opts st of
        Some cached \<Rightarrow> (Inr cached, st\<lparr> totalRequests := totalRequests st + 1 \<rparr>, [])
      | None \<Rightarrow>
          (case enforceRateLimit cfg (now_prune ev) (now_push ev) st of
             (Inl e, st1) \<Rightarrow> (Inl e, st1, [])
           | (Inr _, st1) \<Rightarrow>
               (case (if \<not> isHealthy st1 \<and> now_health ev - lastHealthCheck st1 > 10000
                      then (snd (checkHealth (probe ev) st1), [HealthProbe])
                      else (st1, [])) of
                  (st2, effs) \<Rightarrow>
                    if \<not> isHealthy st2 then (Inl unavailable_error, st2, effs)
                    else (case complete_dispatched cfg ev opts st2 of
                            (res, st3, effs') \<Rightarrow> (res, st3, effs @ effs')))))"

subsection \<open>shutdown (lines 254-258)\<close>

definition shutdown :: "client \<Rightarrow> client" where
  "shutdown st = st\<lparr> cache := NodeCache_close (NodeCache_flushAll (cache st)) \<rparr>"

section \<open>The server that owns the client (src/index.ts)\<close>

text \<open>
  \<^verbatim>\<open>LMStudioMCPServer\<close> holds the shutdown flag, the set of tool calls in flight and the
  client. The signal handler \<^verbatim>\<open>gracefulShutdown\<close> sets the flag at line 142 and then
  only waits for the set to drain; it does not call the client's \<^verbatim>\<open>shutdown\<close>.
  \<open>lmStudioClient_shutdown\<close> is \<^verbatim>\<open>this.lmStudioClient.shutdown()\<close> run in the
  server's state.
\<close>

record server =
  isShuttingDown :: bool
  server_activeRequests :: "string set"
  lmStudioClient :: client

definition new_LMStudioMCPServer :: "config \<Rightarrow> server" where
  "new_LMStudioMCPServer cfg =
     \<lparr> isShuttingDown = False, server_activeRequests = {}, lmStudioClient = new_LMStudioClient cfg \<rparr>"

definition gracefulShutdown_begin :: "server \<Rightarrow> server" where
  "gracefulShutdown_begin srv = srv\<lparr> isShuttingDown := True \<rparr>"

definition lmStudioClient_shutdown :: "server \<Rightarrow> server" where
  "lmStudioClient_shutdown srv = srv\<lparr> lmStudioClient := shutdown (lmStudioClient srv) \<rparr>"

section \<open>Calls in flight at the same time\<close>

text \<open>
  JavaScript runs one piece of code at a time, and a call of \<^verbatim>\<open>complete\<close> gives up
  control only at its two \<^verbatim>\<open>await\<close>s: at line 115, for the \<^verbatim>\<open>checkHealth\<close> it has
  started, and at line 127, for \<^verbatim>\<open>pRetry\<close>. \<open>complete_enter\<close> is the method from line
  100 up to its first \<^verbatim>\<open>await\<close>, \<open>complete_gate\<close> is lines 118-124, where a call
  resumes after the probe, and \<open>complete_settle\<close> (above) is where it resumes after
  \<^verbatim>\<open>pRetry\<close>. A system is the client together with the calls in flight, each with the
  place where it waits; an event starts a call or resumes one whose awaited promise has
  settled. The outcomes of a call's probe and requests are those of its own environment.
\<close>

datatype call_state = Settled "js_error + string" | AwaitingHealth | AwaitingRetry

definition complete_gate :: "client \<Rightarrow> call_state \<times> client" where
  "complete_gate st =
     (if \<not> isHealthy st then (Settled (Inl unavailable_error), st)
      else (AwaitingRetry,
            st\<lparr> activeRequests := activeRequests st + 1, totalRequests := totalRequests st + 1 \<rparr>))"

definition complete_enter :: "config \<Rightarrow> env \<Rightarrow> options \<Rightarrow> client \<Rightarrow> call_state \<times> client" where
  "complete_enter cfg ev opts st =
     (case cache_lookup cfg ev opts st of
        Some cached \<Rightarrow> (Settled (Inr cached), st\<lparr> totalRequests := totalRequests st + 1 \<rparr>)
      | None \<Rightarrow>
          (case enforceRateLimit cfg (now_prune ev) (now_push ev) st of
             (Inl e, st1) \<Rightarrow> (Settled (Inl e), st1)
           | (Inr _, st1) \<Rightarrow>
               if \<not> isHealthy st1 \<and> now_health ev - lastHealthCheck st1 > 10000
               then (AwaitingHealth, st1)
               else complete_gate st1))"

record system =
  sys_client :: client
  calls :: "nat \<rightharpoonup> call_state \<times> options \<times> env"

datatype event = Call nat options env | HealthSettles nat | RetrySettles nat

fun step :: "config \<Rightarrow> system \<Rightarrow> event \<Rightarrow> system" where
  "step cfg s (Call i opts ev) =
     (case complete_enter cfg ev opts (sys_client s) of
        (cs, st) \<Rightarrow> s\<lparr> sys_client := st, calls := (calls s)(i \<mapsto> (cs, opts, ev)) \<rparr>)"
| "step cfg s (HealthSettles i) =
     (case calls s i of
        Some (AwaitingHealth, opts, ev) \<Rightarrow>
          (case complete_gate (snd (checkHealth (probe ev) (sys_client s))) of
             (cs, st) \<Rightarrow> s\<lparr> sys_client := st, calls := (calls s)(i \<mapsto> (cs, opts, ev)) \<rparr>)
      | _ \<Rightarrow> s)"
| "step cfg s (RetrySettles i) =
     (case calls s i of
        Some (AwaitingRetry, opts, ev) \<Rightarrow>
          (case complete_settle cfg ev opts (fst (retrying_executor cfg ev)) (sys_client s) of
             (res, st) \<Rightarrow> s\<lparr> sys_client := st, calls := (calls s)(i \<mapsto> (Settled res, opts, ev)) \<rparr>)
      | _ \<Rightarrow> s)"

definition run :: "config \<Rightarrow> system \<Rightarrow> event list \<Rightarrow> system" where
  "run cfg s evs = foldl (step cfg) s evs"

definition boot :: "config \<Rightarrow> system" where
  "boot cfg = \<lparr> sys_client = new_LMStudioClient cfg, calls = Map.empty \<rparr>"

definition one_at_a_time :: config where
  "one_at_a_time = default_config\<lparr> rateLimit_maxConcurrent := 1 \<rparr>"

section \<open>Notions used in the statements\<close>

fun is_RemoteCall :: "effect \<Rightarrow> bool" where
  "is_RemoteCall (RemoteCall n) = True"
| "is_RemoteCall _ = False"

text \<open>
  The call gets as far as line 122: the cache does not answer, admission passes, and
  the client is healthy, at once or after the re-probe of line 115.
\<close>

definition reaches_executor :: "config \<Rightarrow> env \<Rightarrow> options \<Rightarrow> client \<Rightarrow> bool" where
  "reaches_executor cfg ev opts st =
     (cache_lookup cfg ev opts st = None
      \<and> fst (enforceRateLimit cfg (now_prune ev) (now_push ev) st) = Inr ()
      \<and> (isHealthy st \<or> (now_health ev - lastHealthCheck st > 10000 \<and> probe ev \<noteq> None)))"

text \<open>
  An attempt fails with an error that the retry package retries, and the errors of the
  attempts \<open>1, ..., k\<close> when each of them fails.
\<close>

definition retried_failure :: "env \<Rightarrow> js_error + 'a \<Rightarrow> bool" where
  "retried_failure ev r = (case r of Inl e \<Rightarrow> \<not> stops_retry (isNetworkError ev) e | Inr val \<Rightarrow> False)"

definition attempt_failures :: "config \<Rightarrow> env \<Rightarrow> nat \<Rightarrow> js_error list" where
  "attempt_failures cfg ev k = map (\<lambda>n. projl (attempt cfg (endpoint ev n))) [1..<Suc k]"

text \<open>
  The effects of an executor run that starts with attempt \<open>n\<close> and makes \<open>k\<close>
  retries: the attempt, then before each retry a pause and the next attempt.
\<close>

definition retry_trace :: "(nat \<Rightarrow> int) \<Rightarrow> nat \<Rightarrow> nat \<Rightarrow> effect list" where
  "retry_trace delay n k =
     RemoteCall n # concat (map (\<lambda>i. [Sleep (delay i), RemoteCall (Suc i)]) [n..<n + k])"

section \<open>Concrete inputs\<close>

text \<open>The table of network error messages of p-retry 4 and 5.\<close>

definition networkErrorMsgs :: "string list" where
  "networkErrorMsgs =
     [''Failed to fetch'', ''NetworkError when attempting to fetch resource.'',
      ''The Internet connection appears to be offline.'', ''Network request failed'']"

definition env_ok :: env where
  "env_ok = \<lparr> now_get = 20000, now_prune = 20000, now_push = 20000, now_health = 20000,
              probe = Some 20000, endpoint = (\<lambda>n. Resolves (WellFormed [''ok''])), now_set = 20500,
              isNetworkError = (\<lambda>e. err_message e \<in> set networkErrorMsgs) \<rparr>"

definition env_down :: env where
  "env_down = env_ok\<lparr> probe := None \<rparr>"

definition env_hang :: env where
  "env_hang = env_ok\<lparr> endpoint := (\<lambda>n. Pending) \<rparr>"

definition env_blank :: env where
  "env_blank = \<lparr> now_get = 18000, now_prune = 18000, now_push = 18000, now_health = 18000,
                 probe = Some 18000, endpoint = (\<lambda>n. Resolves (WellFormed [[]])), now_set = 19000,
                 isNetworkError = (\<lambda>e. err_message e \<in> set networkErrorMsgs) \<rparr>"

definition env_type_error :: env where
  "env_type_error = env_ok\<lparr> endpoint := (\<lambda>n. Rejects (JsError TypeError_class ''TypeError'' ''boom'')) \<rparr>"

definition env_mixed :: env where
  "env_mixed = env_ok\<lparr> endpoint := (\<lambda>n. Rejects (new_Error (if n \<le> 2 then ''a'' else if n = 3 then ''b'' else ''c''))) \<rparr>"

definition no_key :: options where
  "no_key = \<lparr> cacheKey = None \<rparr>"

definition key_k :: options where
  "key_k = \<lparr> cacheKey = Some ''k'' \<rparr>"

definition healthy_client :: client where
  "healthy_client = (new_LMStudioClient default_config)\<lparr> isHealthy := True, lastHealthCheck := 15000 \<rparr>"

definition busy_client :: client where
  "busy_client = healthy_client\<lparr> activeRequests := 10 \<rparr>"

definition full_window_client :: client where
  "full_window_client = healthy_client\<lparr> requestTimestamps := [1000, 30000] \<rparr>"

definition blank_cached_client :: client where
  "blank_cached_client = healthy_client\<lparr> cache := NodeCache_set (cache healthy_client) 19000 ''k'' [] \<rparr>"

definition tight_config :: config where
  "tight_config = default_config\<lparr> rateLimit_maxRequestsPerMinute := 2 \<rparr>"

definition one_per_minute :: config where
  "one_per_minute = default_config\<lparr> rateLimit_maxRequestsPerMinute := 1 \<rparr>"

definition four_retries :: config where
  "four_retries = default_config\<lparr> lmStudio_maxRetries := 4 \<rparr>"

section \<open>Admission (enforceRateLimit)\<close>

lemma enforceRateLimit_rejects:
  "fst (enforceRateLimit cfg t1 t2 st) = Inl e \<Longrightarrow> e = rate_limit_error \<or> e = concurrency_error"
  by (auto simp: enforceRateLimit_def Let_def split: if_splits)

lemma enforceRateLimit_frame:
  "snd (enforceRateLimit cfg t1 t2 st) = st'
   \<Longrightarrow> totalRequests st' = totalRequests st \<and> totalErrors st' = totalErrors st \<and> activeRequests st' = activeRequests st
     \<and> isHealthy st' = isHealthy st \<and> lastHealthCheck st' = lastHealthCheck st \<and> cache st' = cache st
     \<and> healthCheckLoop st' = healthCheckLoop st"
  by (auto simp: enforceRateLimit_def Let_def split: if_splits)

lemma enforceRateLimit_admits:
  "enforceRateLimit cfg t1 t2 st = (Inr u, st') \<Longrightarrow> rateLimit_enabled cfg
   \<Longrightarrow> requestTimestamps st' = filter (\<lambda>ts. ts > t1 - 60000) (requestTimestamps st) @ [t2]"
  by (auto simp: enforceRateLimit_def Let_def split: if_splits)

lemma overloaded_distinct:
  "rate_limit_error \<noteq> concurrency_error" "rate_limit_error \<noteq> unavailable_error" "concurrency_error \<noteq> unavailable_error"
  "rate_limit_error \<noteq> timeout_error cfg" "concurrency_error \<noteq> timeout_error cfg" "unavailable_error \<noteq> timeout_error cfg"
  by (simp_all add: rate_limit_error_def concurrency_error_def unavailable_error_def timeout_error_def new_Error_def)

lemma cache_lookup_no_key: "cache_lookup cfg ev no_key st = None"
  by (simp add: cache_lookup_def no_key_def truthy_def)

lemma busy_rejected:
  "enforceRateLimit default_config 20000 20000 busy_client = (Inl concurrency_error, busy_client)"
  by (simp add: enforceRateLimit_def busy_client_def healthy_client_def new_LMStudioClient_def default_config_def)

text \<open>
  Claim C8. With rate limiting enabled and a per-minute bound \<open>R\<close>: an admission check
  that finds \<open>R\<close> (or more) recorded admissions within the trailing 60 seconds throws the
  rate-limit error. Once the oldest recorded timestamp is more than 60 seconds old, a
  window that held at most \<open>R\<close> timestamps loses it in the pruning of the next check, so
  the rate test passes, and the call is admitted and its timestamp recorded (the
  concurrency limit, tested after the rate, not being reached).
\<close>

theorem rate_window_bound:
  assumes "rateLimit_enabled cfg"
  shows "(int (length (filter (\<lambda>ts. ts > t1 - 60000) (requestTimestamps st))) \<ge> rateLimit_maxRequestsPerMinute cfg
            \<longrightarrow> fst (enforceRateLimit cfg t1 t2 st) = Inl rate_limit_error)
       \<and> (requestTimestamps st \<noteq> []
          \<and> int (length (requestTimestamps st)) \<le> rateLimit_maxRequestsPerMinute cfg
          \<and> t1 - Min (set (requestTimestamps st)) > 60000
          \<and> activeRequests st < rateLimit_maxConcurrent cfg
            \<longrightarrow> fst (enforceRateLimit cfg t1 t2 st) = Inr ()
              \<and> requestTimestamps (snd (enforceRateLimit cfg t1 t2 st))
                  = filter (\<lambda>ts. ts > t1 - 60000) (requestTimestamps st) @ [t2]
              \<and> Min (set (requestTimestamps st)) \<notin> set (filter (\<lambda>ts. ts > t1 - 60000) (requestTimestamps st)))"
proof (intro conjI impI)
  assume "int (length (filter (\<lambda>ts. ts > t1 - 60000) (requestTimestamps st))) \<ge> rateLimit_maxRequestsPerMinute cfg"
  then show "fst (enforceRateLimit cfg t1 t2 st) = Inl rate_limit_error"
    using assms by (simp add: enforceRateLimit_def Let_def)
next
  assume h: "requestTimestamps st \<noteq> []
          \<and> int (length (requestTimestamps st)) \<le> rateLimit_maxRequestsPerMinute cfg
          \<and> t1 - Min (set (requestTimestamps st)) > 60000
          \<and> activeRequests st < rateLimit_maxConcurrent cfg"
  let ?old = "Min (set (requestTimestamps st))"
  have mem: "?old \<in> set (requestTimestamps st)"
    using h by (simp add: Min_in)
  have gone: "\<not> ?old > t1 - 60000"
    using h by linarith
  have "length (filter (\<lambda>ts. ts > t1 - 60000) (requestTimestamps st)) < length (requestTimestamps st)"
    using mem gone by (rule length_filter_less)
  then have room: "\<not> int (length (filter (\<lambda>ts. ts > t1 - 60000) (requestTimestamps st))) \<ge> rateLimit_maxRequestsPerMinute cfg"
    using h by linarith
  show "fst (enforceRateLimit cfg t1 t2 st) = Inr ()"
    using assms room h by (simp add: enforceRateLimit_def Let_def)
  show "requestTimestamps (snd (enforceRateLimit cfg t1 t2 st))
          = filter (\<lambda>ts. ts > t1 - 60000) (requestTimestamps st) @ [t2]"
    using assms room h by (simp add: enforceRateLimit_def Let_def)
  show "?old \<notin> set (filter (\<lambda>ts. ts > t1 - 60000) (requestTimestamps st))"
    using gone by simp
qed

text \<open>
  The bound 2 with admissions recorded at 1000 and 30000: a check at 60000 is rejected;
  a check at 61001, when the admission of 1000 is 60001 old, is admitted.
\<close>

theorem rate_window_bound_witness:
  "rateLimit_enabled tight_config
   \<and> fst (enforceRateLimit tight_config 60000 60000 full_window_client) = Inl rate_limit_error
   \<and> fst (enforceRateLimit tight_config 61001 61001 full_window_client) = Inr ()
   \<and> requestTimestamps (snd (enforceRateLimit tight_config 61001 61001 full_window_client)) = [30000, 61001]"
proof -
  have e: "rateLimit_enabled tight_config"
    by (simp add: tight_config_def default_config_def)
  have ts: "requestTimestamps full_window_client = [1000, 30000]"
    by (simp add: full_window_client_def)
  have a: "activeRequests full_window_client = 0"
    by (simp add: full_window_client_def healthy_client_def new_LMStudioClient_def)
  have r: "rateLimit_maxRequestsPerMinute tight_config = 2" "rateLimit_maxConcurrent tight_config = 10"
    by (simp_all add: tight_config_def default_config_def)
  show ?thesis
    using e rate_window_bound [OF e, of 60000 full_window_client 60000]
      rate_window_bound [OF e, of 61001 full_window_client 61001]
    by (simp add: ts a r)
qed

text \<open>
  Claim C3, as the code has it. A call that the cache does not answer and that
  \<^verbatim>\<open>enforceRateLimit\<close> rejects fails with that error, which is the rate-limit error or
  the concurrency error and differs from the unavailable and the timeout errors. The
  throw comes before line 123, so \<open>totalRequests\<close> is not incremented; \<open>totalErrors\<close>
  and the active count are unchanged too, and nothing is sent to the outside.
\<close>

theorem admission_rejection_counters:
  assumes "cache_lookup cfg ev opts st = None"
      and "fst (enforceRateLimit cfg (now_prune ev) (now_push ev) st) = Inl e"
  shows "fst (complete cfg ev opts st) = Inl e
       \<and> (e = rate_limit_error \<or> e = concurrency_error)
       \<and> e \<noteq> unavailable_error \<and> e \<noteq> timeout_error cfg
       \<and> totalRequests (fst (snd (complete cfg ev opts st))) = totalRequests st
       \<and> totalErrors (fst (snd (complete cfg ev opts st))) = totalErrors st
       \<and> activeRequests (fst (snd (complete cfg ev opts st))) = activeRequests st
       \<and> snd (snd (complete cfg ev opts st)) = []"
proof -
  obtain st1 where er: "enforceRateLimit cfg (now_prune ev) (now_push ev) st = (Inl e, st1)"
    using assms(2) by (cases "enforceRateLimit cfg (now_prune ev) (now_push ev) st") auto
  have c: "complete cfg ev opts st = (Inl e, st1, [])"
    using assms(1) er by (simp add: complete_def)
  have k: "e = rate_limit_error \<or> e = concurrency_error"
    using assms(2) by (rule enforceRateLimit_rejects)
  have f: "totalRequests st1 = totalRequests st \<and> totalErrors st1 = totalErrors st \<and> activeRequests st1 = activeRequests st"
    using enforceRateLimit_frame [of cfg "now_prune ev" "now_push ev" st st1] er by simp
  from k have d: "e \<noteq> unavailable_error \<and> e \<noteq> timeout_error cfg"
    using overloaded_distinct by auto
  show ?thesis using c k f d by simp
qed

text \<open>Ten calls in flight under the default bound of ten: the next call is rejected.\<close>

theorem admission_rejection_counters_witness:
  "cache_lookup default_config env_ok no_key busy_client = None
   \<and> fst (enforceRateLimit default_config (now_prune env_ok) (now_push env_ok) busy_client) = Inl concurrency_error
   \<and> fst (complete default_config env_ok no_key busy_client) = Inl concurrency_error
   \<and> totalRequests (fst (snd (complete default_config env_ok no_key busy_client))) = totalRequests busy_client
   \<and> totalErrors (fst (snd (complete default_config env_ok no_key busy_client))) = totalErrors busy_client"
proof -
  have l: "cache_lookup default_config env_ok no_key busy_client = None"
    by (rule cache_lookup_no_key)
  have r: "fst (enforceRateLimit default_config (now_prune env_ok) (now_push env_ok) busy_client) = Inl concurrency_error"
    by (simp add: busy_rejected env_ok_def)
  show ?thesis
    using l r admission_rejection_counters [OF l r] by simp
qed

text \<open>
  Claim C3 as stated fails: the same rejected call leaves \<open>totalRequests\<close> where it
  was instead of adding one.
\<close>

theorem rejected_call_not_counted:
  "fst (complete default_config env_ok no_key busy_client) = Inl concurrency_error
   \<and> totalRequests (fst (snd (complete default_config env_ok no_key busy_client))) \<noteq> totalRequests busy_client + 1"
  by (simp add: complete_def cache_lookup_no_key busy_rejected env_ok_def)

section \<open>Unavailable after admission (lines 110-120)\<close>

text \<open>
  Claim C10. With rate limiting enabled, a call that the cache does not answer, that
  \<^verbatim>\<open>enforceRateLimit\<close> admits, and that finds the client unhealthy (at once, or after a
  failed re-probe when the reading is stale) fails with the unavailable error. The
  timestamp pushed at line 88 stays in the list: a later admission check whose window
  still covers it is rejected as soon as the other in-window admissions and this one
  reach the bound. \<open>totalRequests\<close>, \<open>totalErrors\<close> and the active count are unchanged.
\<close>

theorem unavailable_after_admission:
  assumes "rateLimit_enabled cfg"
      and "cache_lookup cfg ev opts st = None"
      and "fst (enforceRateLimit cfg (now_prune ev) (now_push ev) st) = Inr ()"
      and "\<not> isHealthy st"
      and "now_health ev - lastHealthCheck st > 10000 \<longrightarrow> probe ev = None"
  shows "fst (complete cfg ev opts st) = Inl unavailable_error
       \<and> requestTimestamps (fst (snd (complete cfg ev opts st)))
           = filter (\<lambda>ts. ts > now_prune ev - 60000) (requestTimestamps st) @ [now_push ev]
       \<and> (\<forall>t t'. t - 60000 < now_push ev
             \<and> int (length (filter (\<lambda>ts. ts > t - 60000)
                     (filter (\<lambda>ts. ts > now_prune ev - 60000) (requestTimestamps st)))) + 1
                 \<ge> rateLimit_maxRequestsPerMinute cfg
            \<longrightarrow> fst (enforceRateLimit cfg t t' (fst (snd (complete cfg ev opts st)))) = Inl rate_limit_error)
       \<and> totalRequests (fst (snd (complete cfg ev opts st))) = totalRequests st
       \<and> totalErrors (fst (snd (complete cfg ev opts st))) = totalErrors st
       \<and> activeRequests (fst (snd (complete cfg ev opts st))) = activeRequests st"
proof -
  obtain st1 where er: "enforceRateLimit cfg (now_prune ev) (now_push ev) st = (Inr (), st1)"
    using assms(3) by (cases "enforceRateLimit cfg (now_prune ev) (now_push ev) st") auto
  have fr: "totalRequests st1 = totalRequests st \<and> totalErrors st1 = totalErrors st
          \<and> activeRequests st1 = activeRequests st \<and> isHealthy st1 = isHealthy st
          \<and> lastHealthCheck st1 = lastHealthCheck st"
    using enforceRateLimit_frame [of cfg "now_prune ev" "now_push ev" st st1] er by simp
  have ts1: "requestTimestamps st1 = filter (\<lambda>ts. ts > now_prune ev - 60000) (requestTimestamps st) @ [now_push ev]"
    using er assms(1) by (rule enforceRateLimit_admits)
  define st2 where "st2 = (if now_health ev - lastHealthCheck st > 10000 then st1\<lparr> isHealthy := False \<rparr> else st1)"
  have c: "complete cfg ev opts st
      = (Inl unavailable_error, st2, if now_health ev - lastHealthCheck st > 10000 then [HealthProbe] else [])"
    using assms(2,4,5) er fr by (simp add: complete_def checkHealth_def st2_def)
  have f2: "requestTimestamps st2 = requestTimestamps st1 \<and> totalRequests st2 = totalRequests st
          \<and> totalErrors st2 = totalErrors st \<and> activeRequests st2 = activeRequests st"
    using fr by (simp add: st2_def)
  have nxt: "fst (enforceRateLimit cfg t t' st2) = Inl rate_limit_error"
    if "t - 60000 < now_push ev
        \<and> int (length (filter (\<lambda>ts. ts > t - 60000)
                     (filter (\<lambda>ts. ts > now_prune ev - 60000) (requestTimestamps st)))) + 1
                 \<ge> rateLimit_maxRequestsPerMinute cfg" for t t'
    using that assms(1) f2 ts1 by (simp add: enforceRateLimit_def Let_def)
  show ?thesis
    using c f2 ts1 nxt by simp
qed

text \<open>
  A fresh client with a bound of one admission per minute and an endpoint that is down:
  the call at 20000 fails as unavailable, and its timestamp alone makes the admission
  check at 30000 fail.
\<close>

theorem unavailable_after_admission_witness:
  "rateLimit_enabled one_per_minute
   \<and> cache_lookup one_per_minute env_down no_key (new_LMStudioClient one_per_minute) = None
   \<and> fst (enforceRateLimit one_per_minute (now_prune env_down) (now_push env_down) (new_LMStudioClient one_per_minute)) = Inr ()
   \<and> \<not> isHealthy (new_LMStudioClient one_per_minute)
   \<and> probe env_down = None
   \<and> fst (complete one_per_minute env_down no_key (new_LMStudioClient one_per_minute)) = Inl unavailable_error
   \<and> requestTimestamps (fst (snd (complete one_per_minute env_down no_key (new_LMStudioClient one_per_minute)))) = [20000]
   \<and> fst (enforceRateLimit one_per_minute 30000 30000
             (fst (snd (complete one_per_minute env_down no_key (new_LMStudioClient one_per_minute))))) = Inl rate_limit_error
   \<and> totalRequests (fst (snd (complete one_per_minute env_down no_key (new_LMStudioClient one_per_minute)))) = 0"
proof -
  have e: "rateLimit_enabled one_per_minute"
    by (simp add: one_per_minute_def default_config_def)
  have l: "cache_lookup one_per_minute env_down no_key (new_LMStudioClient one_per_minute) = None"
    by (rule cache_lookup_no_key)
  have a: "fst (enforceRateLimit one_per_minute (now_prune env_down) (now_push env_down) (new_LMStudioClient one_per_minute)) = Inr ()"
    by (simp add: enforceRateLimit_def one_per_minute_def default_config_def new_LMStudioClient_def)
  have h: "\<not> isHealthy (new_LMStudioClient one_per_minute)"
    by (simp add: new_LMStudioClient_def)
  have p: "now_health env_down - lastHealthCheck (new_LMStudioClient one_per_minute) > 10000 \<longrightarrow> probe env_down = None"
    by (simp add: env_down_def)
  have v: "now_prune env_down = 20000" "now_push env_down = 20000" "probe env_down = None"
    by (simp_all add: env_down_def env_ok_def)
  have r: "rateLimit_maxRequestsPerMinute one_per_minute = 1"
    by (simp add: one_per_minute_def)
  have s: "requestTimestamps (new_LMStudioClient one_per_minute) = []" "totalRequests (new_LMStudioClient one_per_minute) = 0"
    by (simp_all add: new_LMStudioClient_def)
  from unavailable_after_admission [OF e l a h p]
  show ?thesis
    using e l a h by (simp add: v r s)
qed

section \<open>shutdown\<close>

text \<open>
  Claim C9, as the code has it. \<^verbatim>\<open>shutdown\<close> is idempotent and cannot fail; each
  invocation empties the cache and stops the cache's periodic sweep, and it returns
  without looking at the active count, which it leaves as it is. It does not touch the
  timer of the periodic health probe, to which the client keeps no handle, and it sets no
  shutdown flag: the flag is a field of the server, set by the server's signal handler,
  which in turn leaves the client as it is.
\<close>

theorem shutdown_clears_cache_only:
  "shutdown (shutdown st) = shutdown st
   \<and> data (cache (shutdown st)) = Map.empty
   \<and> \<not> checkTimer (cache (shutdown st))
   \<and> activeRequests (shutdown st) = activeRequests st
   \<and> healthCheckLoop (shutdown st) = healthCheckLoop st
   \<and> isShuttingDown (lmStudioClient_shutdown srv) = isShuttingDown srv
   \<and> isShuttingDown (gracefulShutdown_begin srv)
   \<and> lmStudioClient (gracefulShutdown_begin srv) = lmStudioClient srv"
  by (simp add: shutdown_def NodeCache_close_def NodeCache_flushAll_def lmStudioClient_shutdown_def
      gracefulShutdown_begin_def)

text \<open>
  Claim C9 as stated fails: after \<^verbatim>\<open>shutdown\<close> on a freshly constructed client the
  periodic probe is still scheduled, and the server's flag is still unset.
\<close>

theorem shutdown_leaves_probe_and_flag:
  "healthCheckLoop (shutdown (new_LMStudioClient default_config))
   \<and> \<not> isShuttingDown (lmStudioClient_shutdown (new_LMStudioMCPServer default_config))"
  by (simp add: shutdown_def new_LMStudioClient_def lmStudioClient_shutdown_def new_LMStudioMCPServer_def)

section \<open>The retrying executor\<close>

lemma retry_trace_0: "retry_trace delay n 0 = [RemoteCall n]"
  by (simp add: retry_trace_def)

lemma retry_trace_Suc:
  "retry_trace delay n (Suc k) = RemoteCall n # Sleep (delay n) # retry_trace delay (Suc n) k"
proof -
  have "[n..<n + Suc k] = n # [Suc n..<Suc n + k]"
    by (simp add: upt_conv_Cons del: upt_Suc)
  then show ?thesis
    by (simp add: retry_trace_def del: upt_Suc)
qed

lemma pRetry_from_Inr:
  "input n = Inr val \<Longrightarrow> pRetry_from input ro isNet errs n left = (Inr val, [RemoteCall n])"
  by (cases left) simp_all

lemma pRetry_from_stop:
  "input n = Inl e \<Longrightarrow> stops_retry isNet e
   \<Longrightarrow> pRetry_from input ro isNet errs n left = (Inl e, [RemoteCall n])"
  by (cases left) simp_all

lemma pRetry_from_last:
  "input n = Inl e \<Longrightarrow> \<not> stops_retry isNet e
   \<Longrightarrow> pRetry_from input ro isNet errs n 0
       = (Inl (case mainError (errs @ [e]) of Some m \<Rightarrow> m | None \<Rightarrow> e), [RemoteCall n])"
  by simp

lemma pRetry_from_retry:
  "input n = Inl e \<Longrightarrow> \<not> stops_retry isNet e
   \<Longrightarrow> pRetry_from input ro isNet errs n (Suc left)
       = (fst (pRetry_from input ro isNet (errs @ [e]) (Suc n) left),
          RemoteCall n # Sleep (createTimeout ro (n - 1)) # snd (pRetry_from input ro isNet (errs @ [e]) (Suc n) left))"
  by (simp add: case_prod_beta)


lemma mainError_loop_Some:
  "\<exists>y. mainError_loop errs counts (Some x) c = Some y"
proof (induction errs arbitrary: counts x c)
  case Nil
  then show ?case by simp
next
  case (Cons e errs)
  then show ?case
    by (simp add: Let_def)
qed

lemma mainError_Cons:
  "mainError (e # errs) = mainError_loop errs ((\<lambda>message. 0)(err_message e := 1)) (Some e) 1"
  by (simp add: mainError_def Let_def)


lemma mainError_Some:
  "errs \<noteq> [] \<Longrightarrow> \<exists>y. mainError errs = Some y"
  by (cases errs) (simp_all add: mainError_Cons mainError_loop_Some)

text \<open>When every error carries the same message, the latest error is the main one.\<close>

lemma mainError_loop_same_message:
  assumes "\<forall>e\<in>set errs. err_message e = m" and "c \<le> counts m + 1"
  shows "mainError_loop errs counts main c = (if errs = [] then main else Some (last errs))"
  using assms
proof (induction errs arbitrary: counts main c)
  case Nil
  then show ?case by simp
next
  case (Cons e errs)
  have m: "err_message e = m"
    using Cons.prems(1) by simp
  have rest: "\<forall>e\<in>set errs. err_message e = m"
    using Cons.prems(1) by simp
  have "mainError_loop errs (counts(m := counts m + 1)) (Some e) (counts m + 1)
      = (if errs = [] then Some e else Some (last errs))"
    using rest by (rule Cons.IH) simp
  then show ?case
    using Cons.prems(2) m by (simp add: Let_def)
qed

lemma mainError_same_message:
  assumes "errs \<noteq> []" and "\<forall>e\<in>set errs. err_message e = m"
  shows "mainError errs = Some (last errs)"
  using mainError_loop_same_message [OF assms(2), of 0 "\<lambda>message. 0" None] assms(1)
  by (simp add: mainError_def)

lemma pRetry_from_all_retried:
  "(\<forall>i. n \<le> i \<and> i \<le> n + left \<longrightarrow> (\<exists>e. input i = Inl e \<and> \<not> stops_retry isNet e))
   \<Longrightarrow> pRetry_from input ro isNet errs n left
       = (Inl (case mainError (errs @ map (\<lambda>i. projl (input i)) [n..<Suc (n + left)]) of
                 Some m \<Rightarrow> m | None \<Rightarrow> projl (input (n + left))),
          retry_trace (\<lambda>i. createTimeout ro (i - 1)) n left)"
proof (induction left arbitrary: n errs)
  case 0
  then obtain e where e: "input n = Inl e" "\<not> stops_retry isNet e"
    by auto
  then show ?case
    by (simp add: retry_trace_0 split: option.splits)
next
  case (Suc left)
  from Suc.prems obtain e where e: "input n = Inl e" "\<not> stops_retry isNet e"
    by (metis le_add1 order_refl)
  have "\<forall>i. Suc n \<le> i \<and> i \<le> Suc n + left \<longrightarrow> (\<exists>e. input i = Inl e \<and> \<not> stops_retry isNet e)"
    using Suc.prems by simp
  then have ih: "pRetry_from input ro isNet (errs @ [e]) (Suc n) left
      = (Inl (case mainError ((errs @ [e]) @ map (\<lambda>i. projl (input i)) [Suc n..<Suc (Suc n + left)]) of
                 Some m \<Rightarrow> m | None \<Rightarrow> projl (input (Suc n + left))),
         retry_trace (\<lambda>i. createTimeout ro (i - 1)) (Suc n) left)"
    by (rule Suc.IH)
  have a: "n + Suc left = Suc n + left"
    by simp
  have l: "errs @ map (\<lambda>i. projl (input i)) [n..<Suc (Suc n + left)]
      = (errs @ [e]) @ map (\<lambda>i. projl (input i)) [Suc n..<Suc (Suc n + left)]"
    using e(1) by (simp add: upt_conv_Cons del: upt_Suc)
  have step: "pRetry_from input ro isNet errs n (Suc left)
      = (fst (pRetry_from input ro isNet (errs @ [e]) (Suc n) left),
         RemoteCall n # Sleep (createTimeout ro (n - 1)) # snd (pRetry_from input ro isNet (errs @ [e]) (Suc n) left))"
    using e by (rule pRetry_from_retry)
  show ?case
    by (simp only: step ih fst_conv snd_conv a l retry_trace_Suc)
qed

lemma pRetry_from_trace:
  "\<exists>k\<le>left. snd (pRetry_from input ro isNet errs n left) = retry_trace (\<lambda>i. createTimeout ro (i - 1)) n k"
proof (induction left arbitrary: n errs)
  case 0
  have "snd (pRetry_from input ro isNet errs n 0) = [RemoteCall n]"
    by (cases "input n") simp_all
  then show ?case by (simp add: retry_trace_0)
next
  case (Suc left)
  show ?case
  proof (cases "input n")
    case (Inr val)
    then have "snd (pRetry_from input ro isNet errs n (Suc left)) = retry_trace (\<lambda>i. createTimeout ro (i - 1)) n 0"
      by (simp add: retry_trace_0 pRetry_from_Inr del: pRetry_from.simps)
    then show ?thesis by blast
  next
    case (Inl e)
    show ?thesis
    proof (cases "stops_retry isNet e")
      case True
      then have "snd (pRetry_from input ro isNet errs n (Suc left)) = retry_trace (\<lambda>i. createTimeout ro (i - 1)) n 0"
        using Inl by (simp add: retry_trace_0 pRetry_from_stop del: pRetry_from.simps)
      then show ?thesis by blast
    next
      case False
      obtain k where k: "k \<le> left"
        "snd (pRetry_from input ro isNet (errs @ [e]) (Suc n) left) = retry_trace (\<lambda>i. createTimeout ro (i - 1)) (Suc n) k"
        using Suc.IH [of "errs @ [e]" "Suc n"] by blast
      have "snd (pRetry_from input ro isNet errs n (Suc left)) = retry_trace (\<lambda>i. createTimeout ro (i - 1)) n (Suc k)"
        using Inl False k(2) by (simp add: retry_trace_Suc pRetry_from_retry del: pRetry_from.simps)
      then show ?thesis using k(1) by (intro exI [of _ "Suc k"]) simp
    qed
  qed
qed



lemma retried_failure_Inl:
  "retried_failure ev r \<longleftrightarrow> (\<exists>e. r = Inl e \<and> \<not> stops_retry (isNetworkError ev) e)"
  by (cases r) (simp_all add: retried_failure_def)

lemma power2_ge4: "(4::int) \<le> 2 ^ Suc (Suc k)"
proof -
  have "(1::int) \<le> 2 ^ k" by simp
  then show ?thesis by simp
qed

lemma createTimeout_linear:
  assumes "0 < lmStudio_retryDelay cfg" and "1 \<le> n"
  shows "createTimeout (retry_options_of cfg) (n - 1)
           = min (lmStudio_retryDelay cfg * int n) (lmStudio_retryDelay cfg * 3)"
proof -
  let ?b = "lmStudio_retryDelay cfg"
  have m: "max ?b 1 = ?b" using assms(1) by simp
  consider "n = 1" | "n = 2" | k where "n = Suc (Suc (Suc k))"
    using assms(2) by (metis One_nat_def Suc_1 le_Suc_eq not_less_eq_eq old.nat.exhaust)
  then show ?thesis
  proof cases
    case 1
    then show ?thesis using assms(1) by (simp add: createTimeout_def retry_options_of_def m)
  next
    case 2
    then show ?thesis using assms(1) by (simp add: createTimeout_def retry_options_of_def m)
  next
    case (3 k)
    have "?b * 4 \<le> ?b * 2 ^ Suc (Suc k)"
      using assms(1) power2_ge4 [of k] by (simp only: mult_le_cancel_left_pos)
    then have a: "min (?b * 2 ^ Suc (Suc k)) (?b * 3) = ?b * 3"
      using assms(1) by linarith
    have "?b * 3 \<le> ?b * int (Suc (Suc (Suc k)))"
      using assms(1) by (simp add: mult_le_cancel_left_pos)
    then have b: "min (?b * int (Suc (Suc (Suc k)))) (?b * 3) = ?b * 3"
      by linarith
    show ?thesis
      unfolding 3 using a b by (simp add: createTimeout_def retry_options_of_def m)
  qed
qed

lemma retry_trace_cong:
  assumes "\<And>i. n \<le> i \<Longrightarrow> i < n + k \<Longrightarrow> f i = g i"
  shows "retry_trace f n k = retry_trace g n k"
proof -
  have "map (\<lambda>i. [Sleep (f i), RemoteCall (Suc i)]) [n..<n + k]
      = map (\<lambda>i. [Sleep (g i), RemoteCall (Suc i)]) [n..<n + k]"
    by (rule map_cong) (simp_all add: assms)
  then show ?thesis
    by (simp only: retry_trace_def)
qed

text \<open>
  Claim C6. With a positive base delay, every run of the executor is: attempt 1 at once,
  and then, for each retry \<open>n = 1, ..., k\<close> it makes (\<open>k\<close> at most \<open>maxRetries\<close>), a
  pause of \<open>min (retryDelay * n) (retryDelay * 3)\<close> followed by attempt \<open>n + 1\<close>. When
  every attempt fails with a failure that the package retries, all \<open>maxRetries\<close> retries
  are made, so the pause before retry \<open>n\<close> is that one for every \<open>n\<close> from 1 to
  \<open>maxRetries\<close>. The package computes the pause as \<open>minTimeout * 2 ^ (n - 1)\<close> capped
  at \<open>maxTimeout\<close>; with the options of lines 146-147 the two schedules are the same
  (\<open>createTimeout_linear\<close>).
\<close>

theorem retry_delay_schedule:
  assumes "0 < lmStudio_retryDelay cfg"
  shows "(\<exists>k\<le>lmStudio_maxRetries cfg.
            snd (retrying_executor cfg ev)
              = retry_trace (\<lambda>n. min (lmStudio_retryDelay cfg * int n) (lmStudio_retryDelay cfg * 3)) 1 k)
       \<and> ((\<forall>n. 1 \<le> n \<and> n \<le> Suc (lmStudio_maxRetries cfg)
                \<longrightarrow> retried_failure ev (attempt cfg (endpoint ev n)))
            \<longrightarrow> snd (retrying_executor cfg ev)
                  = retry_trace (\<lambda>n. min (lmStudio_retryDelay cfg * int n) (lmStudio_retryDelay cfg * 3)) 1
                      (lmStudio_maxRetries cfg))"
proof -
  let ?lib = "\<lambda>i. createTimeout (retry_options_of cfg) (i - 1)"
  let ?spec = "\<lambda>n. min (lmStudio_retryDelay cfg * int n) (lmStudio_retryDelay cfg * 3)"
  let ?input = "\<lambda>n. attempt cfg (endpoint ev n)"
  have same: "retry_trace ?lib 1 k = retry_trace ?spec 1 k" for k
    by (rule retry_trace_cong) (rule createTimeout_linear [OF assms])
  have r: "retries (retry_options_of cfg) = lmStudio_maxRetries cfg"
    by (simp add: retry_options_of_def)
  obtain k where k: "k \<le> lmStudio_maxRetries cfg"
    "snd (retrying_executor cfg ev) = retry_trace ?lib 1 k"
    using pRetry_from_trace [of "lmStudio_maxRetries cfg" ?input "retry_options_of cfg" "isNetworkError ev" "[]" 1]
    by (auto simp: retrying_executor_def pRetry_def r)
  have first: "\<exists>k\<le>lmStudio_maxRetries cfg. snd (retrying_executor cfg ev) = retry_trace ?spec 1 k"
    using k same by auto
  have second: "snd (retrying_executor cfg ev) = retry_trace ?spec 1 (lmStudio_maxRetries cfg)"
    if "\<forall>n. 1 \<le> n \<and> n \<le> Suc (lmStudio_maxRetries cfg) \<longrightarrow> retried_failure ev (attempt cfg (endpoint ev n))"
  proof -
    have "\<forall>i. 1 \<le> i \<and> i \<le> 1 + lmStudio_maxRetries cfg
            \<longrightarrow> (\<exists>e. ?input i = Inl e \<and> \<not> stops_retry (isNetworkError ev) e)"
      using that by (simp add: retried_failure_Inl)
    then have "snd (pRetry_from ?input (retry_options_of cfg) (isNetworkError ev) [] 1 (lmStudio_maxRetries cfg))
        = retry_trace ?lib 1 (lmStudio_maxRetries cfg)"
      by (simp only: pRetry_from_all_retried snd_conv)
    then show ?thesis
      using same by (simp add: retrying_executor_def pRetry_def r)
  qed
  show ?thesis using first second by blast
qed

lemma hang_retried:
  "retried_failure env_hang (attempt cfg (endpoint env_hang n))"
  by (simp add: retried_failure_def env_hang_def attempt_def pTimeout_def stops_retry_def)

text \<open>
  Four retries of 1000: an endpoint that never answers is tried five times, with pauses
  of 1000, 2000, 3000 and 3000.
\<close>

theorem retry_delay_schedule_witness:
  "0 < lmStudio_retryDelay four_retries
   \<and> (\<forall>n. retried_failure env_hang (attempt four_retries (endpoint env_hang n)))
   \<and> snd (retrying_executor four_retries env_hang)
       = [RemoteCall 1, Sleep 1000, RemoteCall 2, Sleep 2000, RemoteCall 3, Sleep 3000,
          RemoteCall 4, Sleep 3000, RemoteCall 5]"
proof -
  have b: "0 < lmStudio_retryDelay four_retries"
    by (simp add: four_retries_def default_config_def)
  have f: "\<forall>n. retried_failure env_hang (attempt four_retries (endpoint env_hang n))"
    by (simp add: hang_retried)
  have v: "lmStudio_retryDelay four_retries = 1000" "lmStudio_maxRetries four_retries = 4"
    by (simp_all add: four_retries_def default_config_def)
  have u: "[Suc 0..<5] = [1, 2, 3, 4]"
    by code_simp
  have "snd (retrying_executor four_retries env_hang)
       = retry_trace (\<lambda>n. min (lmStudio_retryDelay four_retries * int n) (lmStudio_retryDelay four_retries * 3)) 1
           (lmStudio_maxRetries four_retries)"
    using retry_delay_schedule [OF b, of env_hang] f by blast
  then have "snd (retrying_executor four_retries env_hang)
       = [RemoteCall 1, Sleep 1000, RemoteCall 2, Sleep 2000, RemoteCall 3, Sleep 3000,
          RemoteCall 4, Sleep 3000, RemoteCall 5]"
    by (simp add: v retry_trace_def u)
  then show ?thesis
    using b f by blast
qed

section \<open>Exhausted retries (lines 127-187)\<close>

lemma filter_RemoteCall_retry_trace:
  "filter is_RemoteCall (retry_trace delay n k) = map RemoteCall [n..<Suc (n + k)]"
proof (induction k arbitrary: n)
  case 0
  then show ?case by (simp add: retry_trace_0)
next
  case (Suc k)
  have "[n..<Suc (n + Suc k)] = n # [Suc n..<Suc (Suc n + k)]"
    by (simp add: upt_conv_Cons del: upt_Suc)
  then show ?case
    using Suc.IH [of "Suc n"] by (simp add: retry_trace_Suc del: upt_Suc)
qed

lemma complete_dispatched_all_retried:
  assumes "\<forall>n. 1 \<le> n \<and> n \<le> Suc (lmStudio_maxRetries cfg) \<longrightarrow> retried_failure ev (attempt cfg (endpoint ev n))"
  shows "\<exists>e. mainError (attempt_failures cfg ev (Suc (lmStudio_maxRetries cfg))) = Some e
      \<and> complete_dispatched cfg ev opts st
          = (Inl (if err_name e = ''TimeoutError'' then timeout_error cfg else e),
             st\<lparr> totalRequests := totalRequests st + 1, totalErrors := totalErrors st + 1 \<rparr>,
             retry_trace (\<lambda>i. createTimeout (retry_options_of cfg) (i - 1)) 1 (lmStudio_maxRetries cfg))"
proof -
  let ?R = "lmStudio_maxRetries cfg"
  let ?input = "\<lambda>n. attempt cfg (endpoint ev n)"
  have "\<forall>i. 1 \<le> i \<and> i \<le> 1 + ?R \<longrightarrow> (\<exists>e. ?input i = Inl e \<and> \<not> stops_retry (isNetworkError ev) e)"
    using assms by (simp add: retried_failure_Inl)
  then have p: "pRetry_from ?input (retry_options_of cfg) (isNetworkError ev) [] 1 ?R
        = (Inl (case mainError ([] @ map (\<lambda>i. projl (?input i)) [1..<Suc (1 + ?R)]) of
                  Some m \<Rightarrow> m | None \<Rightarrow> projl (?input (1 + ?R))),
           retry_trace (\<lambda>i. createTimeout (retry_options_of cfg) (i - 1)) 1 ?R)"
    by (rule pRetry_from_all_retried)
  have l: "[] @ map (\<lambda>i. projl (?input i)) [1..<Suc (1 + ?R)] = attempt_failures cfg ev (Suc ?R)"
    by (simp add: attempt_failures_def)
  have "attempt_failures cfg ev (Suc ?R) \<noteq> []"
    by (simp add: attempt_failures_def)
  then obtain e where e: "mainError (attempt_failures cfg ev (Suc ?R)) = Some e"
    using mainError_Some by blast
  have "complete_dispatched cfg ev opts st
          = (Inl (if err_name e = ''TimeoutError'' then timeout_error cfg else e),
             st\<lparr> totalRequests := totalRequests st + 1, totalErrors := totalErrors st + 1 \<rparr>,
             retry_trace (\<lambda>i. createTimeout (retry_options_of cfg) (i - 1)) 1 ?R)"
    using p e
    by (simp add: complete_dispatched_def retrying_executor_def pRetry_def retry_options_of_def
        complete_settle_def complete_rejected_def Let_def l [simplified])
  then show ?thesis using e by blast
qed

lemma complete_reaches:
  assumes "reaches_executor cfg ev opts st"
  shows "\<exists>st2 effs. complete cfg ev opts st
            = (fst (complete_dispatched cfg ev opts st2), fst (snd (complete_dispatched cfg ev opts st2)),
               effs @ snd (snd (complete_dispatched cfg ev opts st2)))
          \<and> (effs = [] \<or> effs = [HealthProbe])
          \<and> totalRequests st2 = totalRequests st \<and> totalErrors st2 = totalErrors st
          \<and> activeRequests st2 = activeRequests st"
proof -
  obtain st1 where er: "enforceRateLimit cfg (now_prune ev) (now_push ev) st = (Inr (), st1)"
    using assms by (cases "enforceRateLimit cfg (now_prune ev) (now_push ev) st") (auto simp: reaches_executor_def)
  have fr: "totalRequests st1 = totalRequests st \<and> totalErrors st1 = totalErrors st
          \<and> activeRequests st1 = activeRequests st \<and> isHealthy st1 = isHealthy st
          \<and> lastHealthCheck st1 = lastHealthCheck st"
    using enforceRateLimit_frame [of cfg "now_prune ev" "now_push ev" st st1] er by simp
  have miss: "cache_lookup cfg ev opts st = None"
    using assms by (simp add: reaches_executor_def)
  show ?thesis
  proof (cases "isHealthy st")
    case True
    then have "complete cfg ev opts st
            = (fst (complete_dispatched cfg ev opts st1), fst (snd (complete_dispatched cfg ev opts st1)),
               [] @ snd (snd (complete_dispatched cfg ev opts st1)))"
      using miss er fr by (simp add: complete_def case_prod_beta)
    then show ?thesis using fr by blast
  next
    case False
    then obtain t where t: "probe ev = Some t" and stale: "now_health ev - lastHealthCheck st > 10000"
      using assms by (auto simp: reaches_executor_def)
    let ?st2 = "st1\<lparr> isHealthy := True, lastHealthCheck := t \<rparr>"
    have "complete cfg ev opts st
            = (fst (complete_dispatched cfg ev opts ?st2), fst (snd (complete_dispatched cfg ev opts ?st2)),
               [HealthProbe] @ snd (snd (complete_dispatched cfg ev opts ?st2)))"
      using miss er fr False t stale by (simp add: complete_def checkHealth_def case_prod_beta)
    moreover have "totalRequests ?st2 = totalRequests st \<and> totalErrors ?st2 = totalErrors st
          \<and> activeRequests ?st2 = activeRequests st"
      using fr by simp
    ultimately show ?thesis by blast
  qed
qed

lemma attempt_failures_last:
  "last (attempt_failures cfg ev (Suc k)) = projl (attempt cfg (endpoint ev (Suc k)))"
  by (simp add: attempt_failures_def)

lemma attempt_failures_set:
  "e \<in> set (attempt_failures cfg ev k) \<Longrightarrow> \<exists>n. 1 \<le> n \<and> n \<le> k \<and> e = projl (attempt cfg (endpoint ev n))"
  by (auto simp: attempt_failures_def)

text \<open>
  Claim C2, as the code has it. The configuration is one the schema accepts, with a
  timeout that is a safe integer. When the call reaches the executor and every one of the
  \<open>maxRetries + 1\<close> attempts fails with a failure that the package retries (any error but
  a \<^verbatim>\<open>TypeError\<close> that is not a network error), the executor makes exactly the attempts
  \<open>1, ..., maxRetries + 1\<close>. It hands on the main error of those failures: the one whose
  message occurred most often, the latest among equally frequent ones; this is the final
  failure when all failures carry the same message, as they do when every attempt times
  out. The \<^verbatim>\<open>catch\<close> block throws that error itself when its name is not
  \<^verbatim>\<open>TimeoutError\<close> (so a remote-reported error arrives as the package handed it on), and
  otherwise a new error with the message \<^verbatim>\<open>Request timed out after <timeout>ms\<close> in
  place of the \<^verbatim>\<open>TimeoutError\<close>. \<open>totalErrors\<close> goes up by one. (The package adds
  the attempt number and the retries left to the error object; name and message stay.)
\<close>

theorem retries_exhausted:
  assumes "reaches_executor cfg ev opts st"
      and "\<forall>n. 1 \<le> n \<and> n \<le> Suc (lmStudio_maxRetries cfg) \<longrightarrow> retried_failure ev (attempt cfg (endpoint ev n))"
      and "0 < lmStudio_retryDelay cfg"
      and "0 < lmStudio_timeout cfg \<and> lmStudio_timeout cfg \<le> 9007199254740991"
  shows "filter is_RemoteCall (snd (snd (complete cfg ev opts st)))
           = map RemoteCall [1..<lmStudio_maxRetries cfg + 2]
       \<and> (\<exists>e. mainError (attempt_failures cfg ev (Suc (lmStudio_maxRetries cfg))) = Some e
              \<and> fst (complete cfg ev opts st)
                  = Inl (if err_name e = ''TimeoutError'' then timeout_error cfg else e))
       \<and> (\<forall>m. (\<forall>n. 1 \<le> n \<and> n \<le> Suc (lmStudio_maxRetries cfg)
                     \<longrightarrow> err_message (projl (attempt cfg (endpoint ev n))) = m)
              \<longrightarrow> fst (complete cfg ev opts st)
                    = Inl (if err_name (projl (attempt cfg (endpoint ev (Suc (lmStudio_maxRetries cfg))))) = ''TimeoutError''
                           then timeout_error cfg
                           else projl (attempt cfg (endpoint ev (Suc (lmStudio_maxRetries cfg))))))
       \<and> ((\<forall>n. 1 \<le> n \<and> n \<le> Suc (lmStudio_maxRetries cfg) \<longrightarrow> endpoint ev n = Pending)
            \<longrightarrow> fst (complete cfg ev opts st) = Inl (timeout_error cfg))
       \<and> totalErrors (fst (snd (complete cfg ev opts st))) = totalErrors st + 1"
proof -
  let ?R = "lmStudio_maxRetries cfg"
  let ?last = "projl (attempt cfg (endpoint ev (Suc ?R)))"
  obtain st2 effs where c: "complete cfg ev opts st
            = (fst (complete_dispatched cfg ev opts st2), fst (snd (complete_dispatched cfg ev opts st2)),
               effs @ snd (snd (complete_dispatched cfg ev opts st2)))"
      and effs: "effs = [] \<or> effs = [HealthProbe]"
      and te: "totalErrors st2 = totalErrors st"
    using complete_reaches [OF assms(1)] by blast
  obtain e where e: "mainError (attempt_failures cfg ev (Suc ?R)) = Some e"
      and d: "complete_dispatched cfg ev opts st2
          = (Inl (if err_name e = ''TimeoutError'' then timeout_error cfg else e),
             st2\<lparr> totalRequests := totalRequests st2 + 1, totalErrors := totalErrors st2 + 1 \<rparr>,
             retry_trace (\<lambda>i. createTimeout (retry_options_of cfg) (i - 1)) 1 ?R)"
    using complete_dispatched_all_retried [OF assms(2), of opts st2] by blast
  have calls: "filter is_RemoteCall (snd (snd (complete cfg ev opts st))) = map RemoteCall [1..<?R + 2]"
    using effs by (auto simp: c d filter_RemoteCall_retry_trace)
  have res: "fst (complete cfg ev opts st) = Inl (if err_name e = ''TimeoutError'' then timeout_error cfg else e)"
    by (simp add: c d)
  have same: "fst (complete cfg ev opts st)
       = Inl (if err_name ?last = ''TimeoutError'' then timeout_error cfg else ?last)"
    if "\<forall>n. 1 \<le> n \<and> n \<le> Suc ?R \<longrightarrow> err_message (projl (attempt cfg (endpoint ev n))) = m" for m
  proof -
    have "\<forall>x\<in>set (attempt_failures cfg ev (Suc ?R)). err_message x = m"
      using that by (auto dest!: attempt_failures_set)
    moreover have "attempt_failures cfg ev (Suc ?R) \<noteq> []"
      by (simp add: attempt_failures_def)
    ultimately have "mainError (attempt_failures cfg ev (Suc ?R)) = Some (last (attempt_failures cfg ev (Suc ?R)))"
      by (rule mainError_same_message [rotated])
    then have "e = ?last"
      using e by (simp add: attempt_failures_last)
    then show ?thesis using res by simp
  qed
  have tmo: "fst (complete cfg ev opts st) = Inl (timeout_error cfg)"
    if p: "\<forall>n. 1 \<le> n \<and> n \<le> Suc ?R \<longrightarrow> endpoint ev n = Pending"
  proof -
    have "\<forall>n. 1 \<le> n \<and> n \<le> Suc ?R \<longrightarrow> err_message (projl (attempt cfg (endpoint ev n)))
        = ''Promise timed out after '' @ Number_toString (lmStudio_timeout cfg) @ '' milliseconds''"
      using p by (simp add: attempt_def pTimeout_def)
    then have "fst (complete cfg ev opts st)
       = Inl (if err_name ?last = ''TimeoutError'' then timeout_error cfg else ?last)"
      by (rule same)
    moreover have "endpoint ev (Suc ?R) = Pending"
      using p by simp
    ultimately show ?thesis
      by (simp add: attempt_def pTimeout_def)
  qed
  have errs: "totalErrors (fst (snd (complete cfg ev opts st))) = totalErrors st + 1"
    by (simp add: c d te)
  show ?thesis using calls e res same tmo errs by blast
qed

lemma healthy_reaches: "reaches_executor default_config env_hang no_key healthy_client"
  by (simp add: reaches_executor_def cache_lookup_no_key enforceRateLimit_def default_config_def
      healthy_client_def new_LMStudioClient_def)

text \<open>
  The default configuration (three retries) and an endpoint that never answers: four
  attempts, then the timeout error.
\<close>

theorem retries_exhausted_witness:
  "reaches_executor default_config env_hang no_key healthy_client
   \<and> (\<forall>n. retried_failure env_hang (attempt default_config (endpoint env_hang n)))
   \<and> 0 < lmStudio_retryDelay default_config
   \<and> 0 < lmStudio_timeout default_config
   \<and> lmStudio_timeout default_config \<le> 9007199254740991
   \<and> filter is_RemoteCall (snd (snd (complete default_config env_hang no_key healthy_client)))
       = [RemoteCall 1, RemoteCall 2, RemoteCall 3, RemoteCall 4]
   \<and> fst (complete default_config env_hang no_key healthy_client) = Inl (timeout_error default_config)"
proof -
  have r: "lmStudio_maxRetries default_config + 2 = 5"
    by (simp add: default_config_def)
  have u: "[1..<5] = [1, 2, 3, 4::nat]"
    by code_simp
  have p: "\<forall>n. 1 \<le> n \<and> n \<le> Suc (lmStudio_maxRetries default_config) \<longrightarrow> endpoint env_hang n = Pending"
    by (simp add: env_hang_def)
  have f: "\<forall>n. retried_failure env_hang (attempt default_config (endpoint env_hang n))"
    by (simp add: hang_retried)
  then have f': "\<forall>n. 1 \<le> n \<and> n \<le> Suc (lmStudio_maxRetries default_config)
      \<longrightarrow> retried_failure env_hang (attempt default_config (endpoint env_hang n))"
    by simp
  have b: "0 < lmStudio_retryDelay default_config"
    by (simp add: default_config_def)
  have t: "0 < lmStudio_timeout default_config \<and> lmStudio_timeout default_config \<le> 9007199254740991"
    by (simp add: default_config_def)
  note w = retries_exhausted [OF healthy_reaches f' b t]
  have c1: "filter is_RemoteCall (snd (snd (complete default_config env_hang no_key healthy_client)))
          = map RemoteCall [1..<lmStudio_maxRetries default_config + 2]"
    using w by blast
  have c2: "fst (complete default_config env_hang no_key healthy_client) = Inl (timeout_error default_config)"
    using w p by blast
  have c3: "filter is_RemoteCall (snd (snd (complete default_config env_hang no_key healthy_client)))
          = [RemoteCall 1, RemoteCall 2, RemoteCall 3, RemoteCall 4]"
    using c1 by (simp only: r u) simp
  show ?thesis
    using healthy_reaches f b t c2 c3 by blast
qed

lemma Number_toString_30000: "Number_toString 30000 = ''30000''"
  by (simp add: Number_toString_def Let_def digit_char_def show_nat.simps)

text \<open>
  Claim C2 as stated fails: in the same run the executor's final failure is the
  \<^verbatim>\<open>TimeoutError\<close> of the last attempt, and what the caller receives is another error,
  with another name and another message.
\<close>

theorem timeout_failure_replaced:
  "fst (retrying_executor default_config env_hang)
     = Inl (JsError Error_class ''TimeoutError'' ''Promise timed out after 30000 milliseconds'')
   \<and> fst (complete default_config env_hang no_key healthy_client)
     = Inl (JsError Error_class ''Error'' ''Request timed out after 30000ms'')"
proof -
  note s = Number_toString_30000
  have a: "retrying_executor default_config env_hang
     = (Inl (JsError Error_class ''TimeoutError'' ''Promise timed out after 30000 milliseconds''),
        [RemoteCall 1, Sleep 1000, RemoteCall 2, Sleep 2000, RemoteCall 3, Sleep 3000, RemoteCall 4])"
    by (simp add: retrying_executor_def pRetry_def retry_options_of_def default_config_def env_hang_def
        attempt_def pTimeout_def numeral_3_eq_3 createTimeout_def s stops_retry_def mainError_def Let_def)
  have b: "fst (complete default_config env_hang no_key healthy_client)
     = Inl (JsError Error_class ''Error'' ''Request timed out after 30000ms'')"
    by (simp add: complete_def cache_lookup_no_key enforceRateLimit_def healthy_client_def
        new_LMStudioClient_def complete_dispatched_def a complete_settle_def complete_rejected_def
        timeout_error_def new_Error_def s Let_def)
      (simp add: default_config_def env_hang_def env_ok_def s)
  show ?thesis using a b by simp
qed

text \<open>
  Two more runs in which the call does not receive the final failure. An endpoint that
  rejects with a \<^verbatim>\<open>TypeError\<close> that is not a network error is tried once. An endpoint
  whose four failures carry the messages a, a, b, c hands on an error with the message a.
\<close>

lemma type_error_not_retried:
  "retrying_executor default_config env_type_error
     = (Inl (JsError TypeError_class ''TypeError'' ''boom''), [RemoteCall 1])"
  by (simp add: retrying_executor_def pRetry_def retry_options_of_def default_config_def
      env_type_error_def env_ok_def attempt_def pTimeout_def numeral_3_eq_3 stops_retry_def
      networkErrorMsgs_def)

lemma most_frequent_failure_handed_on:
  "fst (retrying_executor default_config env_mixed) = Inl (new_Error ''a'')
   \<and> attempt default_config (endpoint env_mixed 4) = Inl (new_Error ''c'')"
  by (simp add: retrying_executor_def pRetry_def retry_options_of_def default_config_def
      env_mixed_def env_ok_def attempt_def pTimeout_def numeral_3_eq_3 stops_retry_def
      new_Error_def mainError_def Let_def)

section \<open>The stale re-probe (lines 113-120)\<close>








section \<open>The cache (lines 100-108 and 167-170)\<close>

text \<open>
  What the cache path does when line 103 takes the hit branch, and what a second call
  with the same non-empty key finds after a first call that stored a non-empty result.
\<close>

lemma complete_cache_hit:
  "cache_lookup cfg ev opts st = Some cached
   \<Longrightarrow> complete cfg ev opts st = (Inr cached, st\<lparr> totalRequests := totalRequests st + 1 \<rparr>, [])"
  by (simp add: complete_def)

lemma NodeCache_get_set:
  "NodeCache_get (NodeCache_set c t key val) now key
     = (if now - t > stdTTL c * 1000 then None else Some val)"
  by (simp add: NodeCache_get_def NodeCache_set_def)

lemma complete_reaches_cache:
  assumes "reaches_executor cfg ev opts st"
  shows "\<exists>st2. complete cfg ev opts st
            = (fst (complete_dispatched cfg ev opts st2), fst (snd (complete_dispatched cfg ev opts st2)),
               snd (snd (complete cfg ev opts st)))
          \<and> cache st2 = cache st"
proof -
  obtain st1 where er: "enforceRateLimit cfg (now_prune ev) (now_push ev) st = (Inr (), st1)"
    using assms by (cases "enforceRateLimit cfg (now_prune ev) (now_push ev) st") (auto simp: reaches_executor_def)
  have fr: "isHealthy st1 = isHealthy st \<and> lastHealthCheck st1 = lastHealthCheck st \<and> cache st1 = cache st"
    using enforceRateLimit_frame [of cfg "now_prune ev" "now_push ev" st st1] er by simp
  have miss: "cache_lookup cfg ev opts st = None"
    using assms by (simp add: reaches_executor_def)
  show ?thesis
  proof (cases "isHealthy st")
    case True
    then have "complete cfg ev opts st
            = (fst (complete_dispatched cfg ev opts st1), fst (snd (complete_dispatched cfg ev opts st1)),
               snd (snd (complete cfg ev opts st)))"
      using miss er fr by (simp add: complete_def case_prod_beta)
    then show ?thesis using fr by blast
  next
    case False
    then obtain t where t: "probe ev = Some t" and stale: "now_health ev - lastHealthCheck st > 10000"
      using assms by (auto simp: reaches_executor_def)
    let ?st2 = "st1\<lparr> isHealthy := True, lastHealthCheck := t \<rparr>"
    have "complete cfg ev opts st
            = (fst (complete_dispatched cfg ev opts ?st2), fst (snd (complete_dispatched cfg ev opts ?st2)),
               snd (snd (complete cfg ev opts st)))"
      using miss er fr False t stale by (simp add: complete_def checkHealth_def case_prod_beta)
    moreover have "cache ?st2 = cache st"
      using fr by simp
    ultimately show ?thesis by blast
  qed
qed

lemma complete_dispatched_Inr:
  assumes "fst (complete_dispatched cfg ev opts st) = Inr v"
      and "cache_enabled cfg" and "cacheKey opts = Some k" and "k \<noteq> []"
  shows "cache (fst (snd (complete_dispatched cfg ev opts st))) = NodeCache_set (cache st) (now_set ev) k v"
proof (cases "fst (retrying_executor cfg ev)")
  case (Inl e)
  then show ?thesis
    using assms(1)
    by (simp add: complete_dispatched_def complete_settle_def complete_rejected_def case_prod_beta Let_def)
next
  case (Inr response)
  then show ?thesis
    using assms
    by (simp add: complete_dispatched_def complete_settle_def complete_resolved_def case_prod_beta
        Let_def truthy_def)
qed

lemma served_from_cache:
  assumes "cache_enabled cfg" and "cacheKey opts = Some k" and "k \<noteq> []"
      and "reaches_executor cfg ev opts st"
      and "fst (complete cfg ev opts st) = Inr v" and "v \<noteq> []"
      and "now_get ev' - now_set ev \<le> stdTTL (cache st) * 1000"
  shows "complete cfg ev' opts (fst (snd (complete cfg ev opts st)))
       = (Inr v,
          (fst (snd (complete cfg ev opts st)))
            \<lparr> totalRequests := totalRequests (fst (snd (complete cfg ev opts st))) + 1 \<rparr>,
          [])"
proof -
  obtain st2 where c: "complete cfg ev opts st
            = (fst (complete_dispatched cfg ev opts st2), fst (snd (complete_dispatched cfg ev opts st2)),
               snd (snd (complete cfg ev opts st)))"
      and k: "cache st2 = cache st"
    using complete_reaches_cache [OF assms(4)] by blast
  have r: "fst (complete_dispatched cfg ev opts st2) = Inr v"
    using assms(5) c by (metis fst_conv)
  have st: "fst (snd (complete cfg ev opts st)) = fst (snd (complete_dispatched cfg ev opts st2))"
    using c by (metis fst_conv snd_conv)
  have "cache (fst (snd (complete cfg ev opts st))) = NodeCache_set (cache st) (now_set ev) k v"
    using complete_dispatched_Inr [OF r assms(1,2,3)] k st by simp
  then have "cache_lookup cfg ev' opts (fst (snd (complete cfg ev opts st))) = Some v"
    using assms(1,2,3,6,7) by (simp add: cache_lookup_def truthy_def NodeCache_get_set)
  then show ?thesis
    by (rule complete_cache_hit)
qed

lemmas run_example =
  complete_def cache_lookup_def truthy_def key_k_def blank_cached_client_def healthy_client_def
  new_LMStudioClient_def new_NodeCache_def NodeCache_get_def NodeCache_set_def env_ok_def env_blank_def
  enforceRateLimit_def default_config_def complete_dispatched_def retrying_executor_def pRetry_def
  retry_options_of_def attempt_def pTimeout_def LMStudioResponseSchema_parse_def
  complete_settle_def complete_resolved_def numeral_3_eq_3 Let_def

text \<open>
  Claim C7 fails on the code. Line 103 tests the cached value for truthiness, and the
  empty string is falsy, while line 169 stores whatever the call returns, the empty
  string too. Here the cache holds the empty string under the key \<open>k\<close>, stored at 19000
  and not expired at 20000, so the lookup returns a value; the call nevertheless goes
  through admission (a timestamp is recorded) and makes a remote call.
\<close>

theorem empty_cached_value_not_served:
  "NodeCache_get (cache blank_cached_client) (now_get env_ok) ''k'' = Some []
   \<and> complete default_config env_ok key_k blank_cached_client
       = (Inr ''ok'',
          blank_cached_client\<lparr> cache := NodeCache_set (cache blank_cached_client) 20500 ''k'' ''ok'',
                               totalRequests := 1, requestTimestamps := [20000] \<rparr>,
          [RemoteCall 1])"
  by (simp add: run_example)

lemma first_blank_call:
  "complete default_config env_blank key_k healthy_client
     = (Inr [], blank_cached_client\<lparr> totalRequests := 1, requestTimestamps := [18000] \<rparr>, [RemoteCall 1])"
  by (simp add: run_example)

text \<open>
  Claim C5 fails on the code, by the same test of line 103. The first call misses the
  cache, the endpoint answers with an empty message content, and the call succeeds with
  the empty string and stores it. The second call, with the same key and 1000 ms later,
  well within the 300 seconds of the time-to-live, makes a remote call of its own.
\<close>

theorem second_call_repeats_remote_call:
  "fst (complete default_config env_blank key_k healthy_client) = Inr []
   \<and> snd (snd (complete default_config env_blank key_k healthy_client)) = [RemoteCall 1]
   \<and> now_get env_ok - now_set env_blank < cache_ttl default_config * 1000
   \<and> snd (snd (complete default_config env_ok key_k
                  (fst (snd (complete default_config env_blank key_k healthy_client))))) = [RemoteCall 1]"
  by (simp add: first_blank_call) (simp add: run_example)

section \<open>The concurrency bound under interleaving\<close>

text \<open>
  One call run alone through its three steps is the method \<open>complete\<close>.
\<close>

lemma single_call_agrees:
  "sys_client (run cfg \<lparr> sys_client = st, calls = Map.empty \<rparr> [Call i opts ev, HealthSettles i, RetrySettles i])
     = fst (snd (complete cfg ev opts st))
   \<and> calls (run cfg \<lparr> sys_client = st, calls = Map.empty \<rparr> [Call i opts ev, HealthSettles i, RetrySettles i]) i
     = Some (Settled (fst (complete cfg ev opts st)), opts, ev)"
proof (cases "cache_lookup cfg ev opts st")
  case (Some cached)
  then show ?thesis
    by (simp add: run_def complete_enter_def complete_def)
next
  case None
  obtain r st1 where er: "enforceRateLimit cfg (now_prune ev) (now_push ev) st = (r, st1)"
    by (cases "enforceRateLimit cfg (now_prune ev) (now_push ev) st")
  show ?thesis
  proof (cases r)
    case (Inl e)
    then show ?thesis
      using None er by (simp add: run_def complete_enter_def complete_def)
  next
    case (Inr u)
    show ?thesis
    proof (cases "\<not> isHealthy st1 \<and> now_health ev - lastHealthCheck st1 > 10000")
      case True
      then show ?thesis
        using None er Inr
        by (cases "probe ev")
          (simp_all add: run_def complete_enter_def complete_def complete_gate_def checkHealth_def
            complete_dispatched_def case_prod_beta Let_def)
    next
      case False
      then show ?thesis
        using None er Inr
        by (cases "isHealthy st1")
          (simp_all add: run_def complete_enter_def complete_def complete_gate_def
            complete_dispatched_def case_prod_beta Let_def)
    qed
  qed
qed

lemma enter_keeps_bound:
  assumes "rateLimit_enabled cfg"
      and "activeRequests st \<le> rateLimit_maxConcurrent cfg"
      and "fst (complete_enter cfg ev opts st) \<noteq> AwaitingHealth"
  shows "activeRequests (snd (complete_enter cfg ev opts st)) \<le> rateLimit_maxConcurrent cfg"
  using assms
  by (auto simp: complete_enter_def complete_gate_def enforceRateLimit_def Let_def
      split: option.splits if_splits)

text \<open>
  Claim C1 fails on the code. The concurrency test of line 84 and the increment of line
  122 are separated by the \<^verbatim>\<open>await\<close> of line 115. With a bound of one and a client that
  is not yet healthy, two calls enter one after the other: each passes the test with an
  active count of zero and waits for its probe. Both probes succeed, both calls resume
  at line 118, and the active count is two. (\<open>enter_keeps_bound\<close>: a call that does not
  wait at line 115 keeps the count within the bound.)
\<close>

theorem concurrency_bound_exceeded:
  "rateLimit_maxConcurrent one_at_a_time = 1
   \<and> activeRequests (sys_client (run one_at_a_time (boot one_at_a_time)
        [Call 1 no_key env_ok, Call 2 no_key env_ok])) = 0
   \<and> activeRequests (sys_client (run one_at_a_time (boot one_at_a_time)
        [Call 1 no_key env_ok, Call 2 no_key env_ok, HealthSettles 1, HealthSettles 2])) = 2"
  by (simp add: run_def boot_def one_at_a_time_def default_config_def new_LMStudioClient_def
      complete_enter_def cache_lookup_no_key enforceRateLimit_def env_ok_def complete_gate_def
      checkHealth_def)

end
